theory Spec2Isabelle
  imports Main "HOL-Library.Multiset" "HOL-Library.Product_Lexorder" "HOL-Library.Option_ord"
    "HOL-Library.Char_ord" "HOL-Library.List_Lexorder"
begin

section \<open>The daily quiz service of server.js\<close>

text \<open>
  A shallow embedding of the six request handlers of \<^verbatim>\<open>server.js\<close> over an explicit
  database state. The two Mongoose collections are lists of documents in insertion order;
  every handler takes the database and returns the HTTP response together with the
  database it leaves behind. Requests are handled one at a time. The static file
  routes, which never touch the database, are left out.

  Conventions of the embedding:
  \<^item> a JavaScript string is a \<open>string\<close> holding its UTF-8 bytes;
  \<^item> a stored Number (\<open>score\<close>, \<open>answer\<close>) is the \<open>int\<close> it equals: stored fractions
    and infinities are not represented. Where the code computes a Number, from a sum
    or with \<open>parseInt\<close>, the exact integer is rounded to the nearest double as
    JavaScript rounds it;
  \<^item> a \<open>Date\<close> is its number of milliseconds, an \<open>int\<close>; the clock readings
    (\<open>new Date()\<close>, \<open>Date.now()\<close>) and the object id the driver generates for a new
    document are arguments of the handler that uses them;
  \<^item> an ObjectId is the natural number its 24 hexadecimal digits denote;
  \<^item> an optional schema field is an \<open>option\<close>; \<open>None\<close> is the field being absent;
  \<^item> the fields \<open>name\<close>, \<open>isAdminInit\<close>, \<open>id\<close> and \<open>password\<close> of a request body are
    taken at the type the schema gives them, \<open>None\<close> when the body does not have them;
  \<^item> the \<open>userId\<close> of a solve request is a string, or \<open>None\<close> when the body has none
    or has null (a userId of another type is not represented); the \<open>answer\<close> of a
    solve request is the text that ToString gives of it, which is all that \<open>parseInt\<close>
    reads of its argument: the JSON number 7 is the text 7, the number 7e21 is the text
    7e+21, a missing answer is the text undefined;
  \<^item> a field of the body of a create request is a \<open>field\<close>, which says how the
    handler's presence check and the schema's cast see it;
  \<^item> a database operation fails only as modelled here (a cast error, a validation
    error, a duplicate key); connection failures are not represented.
\<close>

subsection \<open>Numbers and parseInt\<close>

fun showNat :: "nat \<Rightarrow> string" where
  "showNat n =
     (if n < 10 then [''0123456789'' ! n]
      else showNat (n div 10) @ [''0123456789'' ! (n mod 10)])"

declare showNat.simps [simp del]

text \<open>
  The decimal digits of an integer, which is how JavaScript prints an integer of
  magnitude below 10^21 such as a reading of \<open>Date.now()\<close>.
\<close>

definition showInt :: "int \<Rightarrow> string" where
  "showInt i = (if i < 0 then CHR ''-'' # showNat (nat (- i)) else showNat (nat i))"

text \<open>The number of binary digits of a natural number.\<close>

fun bitlen :: "nat \<Rightarrow> nat" where
  "bitlen n = (if n = 0 then 0 else Suc (bitlen (n div 2)))"

declare bitlen.simps [simp del]

text \<open>
  The double nearest to a natural number, as a natural number: up to 2^53 every
  integer is a double; above, a double keeps the 53 leading binary digits, rounded to
  nearest, a tie to the even neighbour. The result can be 2^1024 or more, which is no
  double: see \<open>toNumber\<close>.
\<close>

definition roundNat :: "nat \<Rightarrow> nat" where
  "roundNat a =
     (if a \<le> 2 ^ 53 then a
      else
        let q = 2 ^ (bitlen a - 53); m = a div q; r = a mod q
        in if 2 * r < q then m * q
           else if q < 2 * r then (m + 1) * q
           else if even m then m * q else (m + 1) * q)"

text \<open>
  The Number that Number arithmetic gives for an exact integer result that stays in the
  range of the doubles, as \<open>score + 1\<close> does for every Number \<open>score\<close>.
\<close>

definition roundInt :: "int \<Rightarrow> int" where
  "roundInt n = (if n < 0 then - int (roundNat (nat (- n))) else int (roundNat (nat n)))"

text \<open>The values \<open>parseInt\<close> returns: NaN, an integer that is a double, or an infinity.\<close>

datatype number = NaN | Finite int | PosInfinity | NegInfinity

definition toNumber :: "int \<Rightarrow> nat \<Rightarrow> number" where
  "toNumber sign a =
     (let r = roundNat a
      in if 2 ^ 1024 \<le> r then (if sign < 0 then NegInfinity else PosInfinity)
         else Finite (sign * int r))"

text \<open>
  The number of bytes of the white space or line terminator character a string starts
  with, 0 when it starts with none: TAB, LF, VT, FF, CR, SP, and in UTF-8 the
  characters U+00A0, U+1680, U+2000 to U+200A, U+2028, U+2029, U+202F, U+205F, U+3000
  and U+FEFF.
\<close>

definition wsLen :: "string \<Rightarrow> nat" where
  "wsLen s =
     (let b = map of_char s :: nat list in
      if take 1 b \<in> set [[0x09], [0x0A], [0x0B], [0x0C], [0x0D], [0x20]] then 1
      else if take 2 b = [0xC2, 0xA0] then 2
      else if take 3 b \<in> set ([[0xE1, 0x9A, 0x80], [0xE2, 0x80, 0xA8], [0xE2, 0x80, 0xA9],
                [0xE2, 0x80, 0xAF], [0xE2, 0x81, 0x9F], [0xE3, 0x80, 0x80], [0xEF, 0xBB, 0xBF]]
                @ map (\<lambda>k. [0xE2, 0x80, k]) [0x80 ..< 0x8B]) then 3
      else 0)"

fun trimStart :: "string \<Rightarrow> string" where
  "trimStart [] = []"
| "trimStart (c # cs) =
     (if wsLen (c # cs) = 0 then c # cs else trimStart (drop (wsLen (c # cs) - 1) cs))"

text \<open>The value of a character as a digit: 0-9, a-z and A-Z count 0 to 35.\<close>

definition digitVal :: "char \<Rightarrow> nat option" where
  "digitVal c =
     (let n = of_char c :: nat in
      if 48 \<le> n \<and> n \<le> 57 then Some (n - 48)
      else if 97 \<le> n \<and> n \<le> 122 then Some (n - 87)
      else if 65 \<le> n \<and> n \<le> 90 then Some (n - 55)
      else None)"

definition isDigit :: "nat \<Rightarrow> char \<Rightarrow> bool" where
  "isDigit R c = (case digitVal c of None \<Rightarrow> False | Some v \<Rightarrow> v < R)"

definition digitsValue :: "nat \<Rightarrow> string \<Rightarrow> nat" where
  "digitsValue R Z = foldl (\<lambda>acc c. acc * R + (case digitVal c of None \<Rightarrow> 0 | Some v \<Rightarrow> v)) 0 Z"

definition stripSign :: "string \<Rightarrow> int \<times> string" where
  "stripSign s =
     (case s of
        [] \<Rightarrow> (1, [])
      | c # cs \<Rightarrow> if c = CHR ''-'' then (- 1, cs) else if c = CHR ''+'' then (1, cs) else (1, c # cs))"

definition stripPrefix :: "string \<Rightarrow> nat \<times> string" where
  "stripPrefix s = (if take 2 s = ''0x'' \<or> take 2 s = ''0X'' then (16, drop 2 s) else (10, s))"

text \<open>
  \<open>parseInt\<close> with no radix argument, applied to the text of its argument: leading white
  space is skipped, one sign is read, a prefix 0x or 0X selects radix 16 (radix 10
  otherwise), and the longest run of digits of that radix is the number, rounded to a
  double. Whatever follows the digits is ignored. With no digit the result is NaN.
\<close>

definition parseInt :: "string \<Rightarrow> number" where
  "parseInt inputString =
     (let (sign, S1) = stripSign (trimStart inputString);
          (R, S2) = stripPrefix S1;
          Z = takeWhile (isDigit R) S2
      in if Z = [] then NaN else toNumber sign (digitsValue R Z))"

text \<open>
  A text in which, after the leading white space and one sign, no decimal digit
  follows (nothing follows, or a character that is no decimal digit).
\<close>

definition noLeadingDigit :: "string \<Rightarrow> bool" where
  "noLeadingDigit s =
     (case snd (stripSign (trimStart s)) of [] \<Rightarrow> True | c # cs \<Rightarrow> isDigit 10 c = False)"

subsection \<open>The schemas\<close>

type_synonym objectId = nat
type_synonym timestamp = int

text \<open>UserSchema; \<open>u_id\<close> is the document's \<open>_id\<close>.\<close>

record user =
  u_id :: objectId
  userId :: string
  name :: string
  password :: "string option"
  isAdmin :: bool
  score :: int
  latestQuizDate :: "timestamp option"

text \<open>
  An element of \<open>solvers\<close> in ProblemSchema, with its fields \<open>userId\<close> and \<open>name\<close>
  written \<open>s_userId\<close> and \<open>s_name\<close>. Every element the service writes has all four fields.
\<close>

record solver =
  s_userId :: objectId
  s_name :: string
  isCorrect :: bool
  solvedAt :: timestamp

record problem =
  date :: string
  question :: string
  answer :: int
  solvers :: "solver list"

record db =
  users :: "user list"
  problems :: "problem list"

subsection \<open>Responses\<close>

datatype error = CastError | ValidationError | DuplicateKey

text \<open>
  The bodies sent with \<open>res.send\<close>, named for what their texts say, and \<open>ErrMessage\<close>
  for \<open>err.message\<close> of a caught error.
\<close>

datatype message =
  NameRequired | AuthFailed | AllFieldsRequired | ProblemExists | NotFound | AlreadySolved
  | ErrMessage error

text \<open>\<open>SolveJson success isCorrect newScore\<close> is the object the solve handler answers with.\<close>

datatype body =
  Send message
  | UserJson user
  | UsersJson "user list"
  | ProblemJson problem
  | ProblemsJson "problem list"
  | SolveJson bool bool int

type_synonym response = "nat \<times> body"

subsection \<open>The persistence operations the handlers call\<close>

text \<open>
  Casting a string to an ObjectId, as \<open>findById\<close> does with its argument: a string of
  24 hexadecimal digits is an id, any other string is a cast error. (Releases of the
  driver that also take any string of 12 bytes for an id are not modelled.)
\<close>

definition castObjectId :: "string \<Rightarrow> objectId option" where
  "castObjectId s = (if length s = 24 \<and> list_all (isDigit 16) s then Some (digitsValue 16 s) else None)"

text \<open>
  \<open>User.findById\<close>. An id that is missing or null is looked up as null: nothing is
  cast, no document has that \<open>_id\<close>, and the result is null. A string is cast, which
  throws when the string is no object id.
\<close>

definition findById :: "user list \<Rightarrow> string option \<Rightarrow> error + user option" where
  "findById us v =
     (case v of
        None \<Rightarrow> Inr None
      | Some s \<Rightarrow>
          (case castObjectId s of
             None \<Rightarrow> Inl CastError
           | Some i \<Rightarrow> Inr (find (\<lambda>u. u_id u = i) us)))"

text \<open>
  \<open>doc.save()\<close>: the changed document takes the place of the stored document it was
  loaded from, the first one of the collection that matches.
\<close>

fun save :: "('a \<Rightarrow> bool) \<Rightarrow> 'a \<Rightarrow> 'a list \<Rightarrow> 'a list" where
  "save P d [] = []"
| "save P d (x # xs) = (if P x then d # xs else x # save P d xs)"

text \<open>
  \<open>User.create\<close>: the required fields \<open>name\<close> and \<open>userId\<close> are validated, the unique
  indexes on \<open>_id\<close> and \<open>userId\<close> are enforced, and the defaults of the schema are filled in.
\<close>

definition User_create ::
  "objectId \<Rightarrow> string \<Rightarrow> string \<Rightarrow> string option \<Rightarrow> bool \<Rightarrow> user list \<Rightarrow> error + (user \<times> user list)" where
  "User_create newId nm uid pw adm us =
     (if nm = [] \<or> uid = [] then Inl ValidationError
      else if list_ex (\<lambda>u. u_id u = newId \<or> userId u = uid) us then Inl DuplicateKey
      else let u = \<lparr>u_id = newId, userId = uid, name = nm, password = pw, isAdmin = adm,
                     score = 0, latestQuizDate = None\<rparr>
           in Inr (u, us @ [u]))"

text \<open>
  A field of the body of a create request, for a path of the schema whose type is
  \<open>'a\<close> (String for \<open>date\<close> and \<open>question\<close>, Number for \<open>answer\<close>):
  \<^item> \<open>Missing\<close>: the body does not have the field, or has null;
  \<^item> \<open>Typed v\<close>: the JSON value \<open>v\<close> of the path's type, a string or an integer;
  \<^item> \<open>Castable v\<close>: a truthy value of another type that the schema's cast turns into
    \<open>v\<close>, as the string 7 is cast to the number 7 and the number 5 to the string 5;
  \<^item> \<open>Uncastable\<close>: a truthy value that the schema's cast refuses, as the string abc
    is no Number and an array is no String.
  Falsy values of another type than the path's (false, the empty string for a Number)
  and values cast to a Number that is not an integer are not represented.
\<close>

datatype 'a field = Missing | Typed 'a | Castable 'a | Uncastable

text \<open>What the schema's cast makes of a field; \<open>None\<close> when there is no value or the cast throws.\<close>

definition schemaCast :: "'a field \<Rightarrow> 'a option" where
  "schemaCast f = (case f of Missing \<Rightarrow> None | Typed v \<Rightarrow> Some v | Castable v \<Rightarrow> Some v | Uncastable \<Rightarrow> None)"

text \<open>
  \<open>Problem.create\<close>: the three fields are cast and validated as required (a cast
  that throws is reported as a validation error, and so is an empty date or question),
  the unique index on \<open>date\<close> is enforced, and the new problem has no solvers.
\<close>

definition Problem_create ::
  "string field \<Rightarrow> string field \<Rightarrow> int field \<Rightarrow> problem list \<Rightarrow> error + (problem \<times> problem list)" where
  "Problem_create d q a ps =
     (case (schemaCast d, schemaCast q, schemaCast a) of
        (Some d', Some q', Some a') \<Rightarrow>
          if d' = [] \<or> q' = [] then Inl ValidationError
          else if list_ex (\<lambda>p. date p = d') ps then Inl DuplicateKey
          else let p = \<lparr>date = d', question = q', answer = a', solvers = []\<rparr>
               in Inr (p, ps @ [p])
      | _ \<Rightarrow> Inl ValidationError)"

subsection \<open>The handlers\<close>

text \<open>\<open>!v\<close> for an optional string, and for the fields of a create request.\<close>

definition falsy_string :: "string option \<Rightarrow> bool" where
  "falsy_string v = (case v of None \<Rightarrow> True | Some s \<Rightarrow> s = [])"

definition falsy_string_field :: "string field \<Rightarrow> bool" where
  "falsy_string_field f =
     (case f of Missing \<Rightarrow> True | Typed s \<Rightarrow> s = [] | Castable v \<Rightarrow> False | Uncastable \<Rightarrow> False)"

definition falsy_number_field :: "int field \<Rightarrow> bool" where
  "falsy_number_field f =
     (case f of Missing \<Rightarrow> True | Typed n \<Rightarrow> n = 0 | Castable v \<Rightarrow> False | Uncastable \<Rightarrow> False)"

text \<open>The reserved display name of the administrator, three Hangul syllables, in UTF-8.\<close>

definition adminName :: string where
  "adminName = [CHR 0xEA, CHR 0xB4, CHR 0x80, CHR 0xEB, CHR 0xA6, CHR 0xAC, CHR 0xEC, CHR 0x9E, CHR 0x90]"

text \<open>What is left of a user document when the \<open>password\<close> field is taken out.\<close>

definition withoutPassword :: "user \<Rightarrow> user" where
  "withoutPassword u = u\<lparr>password := None\<rparr>"

text \<open>POST /api/users/login\<close>

definition login :: "string option \<Rightarrow> bool \<Rightarrow> objectId \<Rightarrow> timestamp \<Rightarrow> db \<Rightarrow> response \<times> db" where
  "login name_field isAdminInit newId now D =
     (if falsy_string name_field then ((400, Send NameRequired), D)
      else
        let nm = (case name_field of None \<Rightarrow> [] | Some s \<Rightarrow> s) in
        case find (\<lambda>u. name u = nm) (users D) of
          Some u \<Rightarrow> ((200, UserJson (withoutPassword u)), D)
        | None \<Rightarrow>
            (case (if nm = adminName \<and> isAdminInit
                   then User_create newId nm ''1234aa'' (Some ''wj211@'') True (users D)
                   else User_create newId nm (nm @ showInt now) None False (users D)) of
               Inl err \<Rightarrow> ((500, Send (ErrMessage err)), D)
             | Inr (u, us) \<Rightarrow> ((200, UserJson (withoutPassword u)), D\<lparr>users := us\<rparr>)))"

text \<open>POST /api/admin/auth\<close>

definition adminAuth :: "string \<Rightarrow> string \<Rightarrow> db \<Rightarrow> response \<times> db" where
  "adminAuth id_field password_field D =
     (case find (\<lambda>u. userId u = id_field \<and> password u = Some password_field \<and> isAdmin u) (users D) of
        Some u \<Rightarrow> ((200, UserJson (withoutPassword u)), D)
      | None \<Rightarrow> ((401, Send AuthFailed), D))"

text \<open>
  GET /api/users: \<open>find({isAdmin: false}).sort({score: -1, latestQuizDate: 1})\<close>. The
  sort key is the negated score, then the date, where an absent date sorts before every
  date, as MongoDB orders it (\<open>None\<close> is the least element of an \<open>option\<close>).
\<close>

definition listUsers :: "db \<Rightarrow> response \<times> db" where
  "listUsers D =
     ((200, UsersJson (map withoutPassword
        (sort_key (\<lambda>u. (- score u, latestQuizDate u)) (filter (\<lambda>u. isAdmin u = False) (users D))))), D)"

text \<open>GET /api/problems: \<open>find({}).sort({date: -1})\<close>.\<close>

definition listProblems :: "db \<Rightarrow> response \<times> db" where
  "listProblems D = ((200, ProblemsJson (rev (sort_key date (problems D)))), D)"

text \<open>POST /api/problems\<close>

definition createProblem :: "string field \<Rightarrow> string field \<Rightarrow> int field \<Rightarrow> db \<Rightarrow> response \<times> db" where
  "createProblem date_field question_field answer_field D =
     (if falsy_string_field date_field \<or> falsy_string_field question_field \<or>
         falsy_number_field answer_field
      then ((400, Send AllFieldsRequired), D)
      else
        case Problem_create date_field question_field answer_field (problems D) of
          Inr (newProblem, ps) \<Rightarrow> ((201, ProblemJson newProblem), D\<lparr>problems := ps\<rparr>)
        | Inl err \<Rightarrow>
            if err = DuplicateKey then ((409, Send ProblemExists), D)
            else ((500, Send (ErrMessage err)), D))"

text \<open>
  POST /api/problems/:date/solve. \<open>t1\<close> and \<open>t2\<close> are the two readings of the clock, for
  \<open>solvedAt\<close> and for \<open>latestQuizDate\<close>; \<open>answer_text\<close> is the text of the body's answer.
\<close>

definition solve :: "string \<Rightarrow> string option \<Rightarrow> string \<Rightarrow> timestamp \<Rightarrow> timestamp \<Rightarrow> db \<Rightarrow> response \<times> db" where
  "solve date_param userId_field answer_text t1 t2 D =
     (let found = find (\<lambda>p. date p = date_param) (problems D) in
      case findById (users D) userId_field of
        Inl err \<Rightarrow> ((500, Send (ErrMessage err)), D)
      | Inr looked \<Rightarrow>
          (case (found, looked) of
             (Some p, Some u) \<Rightarrow>
               if list_ex (\<lambda>s. s_userId s = u_id u) (solvers p)
               then ((400, Send AlreadySolved), D)
               else
                 let correct = (Finite (answer p) = parseInt answer_text);
                     p' = p\<lparr>solvers := solvers p @
                            [\<lparr>s_userId = u_id u, s_name = name u, isCorrect = correct, solvedAt = t1\<rparr>]\<rparr>;
                     D1 = D\<lparr>problems := save (\<lambda>q. date q = date_param) p' (problems D)\<rparr>
                 in if correct
                    then
                      let u' = u\<lparr>score := roundInt (score u + 1), latestQuizDate := Some t2\<rparr>
                      in ((200, SolveJson True correct (score u')),
                          D1\<lparr>users := save (\<lambda>v. u_id v = u_id u) u' (users D1)\<rparr>)
                    else ((200, SolveJson True correct (score u)), D1)
           | _ \<Rightarrow> ((404, Send NotFound), D)))"

text \<open>The requests of the API, each with the clock readings and the fresh id it consumes.\<close>

datatype request =
  Login "string option" bool objectId timestamp
  | AdminAuth string string
  | ListUsers
  | ListProblems
  | CreateProblem "string field" "string field" "int field"
  | Solve string "string option" string timestamp timestamp

fun handle :: "request \<Rightarrow> db \<Rightarrow> response \<times> db" where
  "handle (Login n f i t) D = login n f i t D"
| "handle (AdminAuth i p) D = adminAuth i p D"
| "handle ListUsers D = listUsers D"
| "handle ListProblems D = listProblems D"
| "handle (CreateProblem d q a) D = createProblem d q a D"
| "handle (Solve d u a t1 t2) D = solve d u a t1 t2 D"

subsection \<open>Sequential runs and the invariant of the solver lists\<close>

text \<open>The database after a sequence of requests, handled one at a time.\<close>

fun run :: "request list \<Rightarrow> db \<Rightarrow> db" where
  "run [] D = D"
| "run (r # rs) D = run rs (snd (handle r D))"

text \<open>Every problem has at most one solver record for each user id.\<close>

definition one_record_per_user :: "db \<Rightarrow> bool" where
  "one_record_per_user D = list_all (\<lambda>p. distinct (map s_userId (solvers p))) (problems D)"

text \<open>
  The order of the leaderboard: a higher score first, and among equal scores the earlier
  \<open>latestQuizDate\<close> first, an absent date before every date.
\<close>

definition ranks_before :: "user \<Rightarrow> user \<Rightarrow> bool" where
  "ranks_before a b =
     (score b < score a \<or> (score a = score b \<and> latestQuizDate a \<le> latestQuizDate b))"

subsection \<open>A small database for concrete runs\<close>

text \<open>
  One user with object id 1 and score 0, and the quiz of 2025-01-01 with answer 7.
  \<open>db2\<close> is that database after the user has solved the quiz at the times 10 and 11.
\<close>

definition userU :: user where
  "userU = \<lparr>u_id = 1, userId = ''kim1735689600000'', name = ''kim'', password = None,
             isAdmin = False, score = 0, latestQuizDate = None\<rparr>"
definition quiz1 :: problem where
  "quiz1 = \<lparr>date = ''2025-01-01'', question = ''3 + 4'', answer = 7, solvers = []\<rparr>"
definition db1 :: db where "db1 = \<lparr>users = [userU], problems = [quiz1]\<rparr>"
definition idU :: string where "idU = ''000000000000000000000001''"

definition solved1 :: problem where
  "solved1 = \<lparr>date = ''2025-01-01'', question = ''3 + 4'', answer = 7,
               solvers = [\<lparr>s_userId = 1, s_name = ''kim'', isCorrect = True, solvedAt = 10\<rparr>]\<rparr>"

definition db2 :: db where
  "db2 = \<lparr>users = [userU\<lparr>score := 1, latestQuizDate := Some 11\<rparr>], problems = [solved1]\<rparr>"

text \<open>\<open>db5\<close> is \<open>db1\<close> with the user's score at 2^53.\<close>

definition userM :: user where
  "userM = \<lparr>u_id = 1, userId = ''kim1735689600000'', name = ''kim'', password = None,
             isAdmin = False, score = 9007199254740992, latestQuizDate = None\<rparr>"

definition db5 :: db where
  "db5 = \<lparr>users = [userM], problems = [quiz1]\<rparr>"

text \<open>
  \<open>db3\<close> is \<open>db1\<close> after a first login of the name lee at the time 1735689600000 with
  the generated object id 2. \<open>db4\<close> holds an administrator and three players, two of
  them tied at score 2.
\<close>

definition userL :: user where
  "userL = \<lparr>u_id = 2, userId = ''lee1735689600000'', name = ''lee'', password = None,
             isAdmin = False, score = 0, latestQuizDate = None\<rparr>"

definition db3 :: db where
  "db3 = \<lparr>users = [userU, userL], problems = [quiz1]\<rparr>"

definition userA :: user where
  "userA = \<lparr>u_id = 3, userId = ''1234aa'', name = adminName, password = Some ''wj211@'',
             isAdmin = True, score = 9, latestQuizDate = None\<rparr>"

definition db4 :: db where
  "db4 = \<lparr>users = [userU\<lparr>password := Some ''pw''\<rparr>, userA,
                    userL\<lparr>score := 2, latestQuizDate := Some 30\<rparr>,
                    userL\<lparr>u_id := 4, score := 2, latestQuizDate := Some 20\<rparr>],
          problems = []\<rparr>"

definition board4 :: "user list" where
  "board4 = [userL\<lparr>u_id := 4, score := 2, latestQuizDate := Some 20\<rparr>,
             userL\<lparr>score := 2, latestQuizDate := Some 30\<rparr>, userU]"

section \<open>Properties\<close>

subsection \<open>Lookups and saved documents\<close>

lemma find_save: "find P xs = Some x \<Longrightarrow> P y \<Longrightarrow> find P (save P y xs) = Some y"
  by (induction xs) (auto split: if_splits)

lemma find_in_set: "find P xs = Some x \<Longrightarrow> x \<in> set xs \<and> P x"
  by (induction xs) (auto split: if_splits)

lemma list_all_save: "list_all Q xs \<Longrightarrow> Q y \<Longrightarrow> list_all Q (save P y xs)"
  by (induction xs) auto

lemma save_first_match:
  "find P xs = Some x \<Longrightarrow> \<exists>ys zs. xs = ys @ x # zs \<and> save P d xs = ys @ d # zs"
proof (induction xs)
  case Nil
  then show ?case by simp
next
  case (Cons a xs)
  show ?case
  proof (cases "P a")
    case True
    with Cons.prems have "a = x" by simp
    with True have "a # xs = [] @ x # xs \<and> save P d (a # xs) = [] @ d # xs" by simp
    then show ?thesis by blast
  next
    case False
    with Cons.prems have "find P xs = Some x" by simp
    from Cons.IH[OF this] obtain ys zs where "xs = ys @ x # zs" "save P d xs = ys @ d # zs"
      by blast
    with False have "a # xs = (a # ys) @ x # zs \<and> save P d (a # xs) = (a # ys) @ d # zs"
      by simp
    then show ?thesis by blast
  qed
qed

lemma findById_Some:
  "findById us v = Inr (Some u) \<Longrightarrow>
   find (\<lambda>w. u_id w = u_id u) us = Some u \<and> (\<exists>s. v = Some s \<and> castObjectId s = Some (u_id u))"
  by (auto simp: findById_def split: option.splits dest: find_in_set)

lemma findById_save:
  assumes "findById us v = Inr (Some u)" and "u_id u' = u_id u"
  shows "findById (save (\<lambda>w. u_id w = u_id u) u' us) v = Inr (Some u')"
proof -
  from findById_Some[OF assms(1)] obtain s
    where f: "find (\<lambda>w. u_id w = u_id u) us = Some u"
      and c: "v = Some s" "castObjectId s = Some (u_id u)"
    by blast
  from find_save[OF f, of u'] assms(2)
  have "find (\<lambda>w. u_id w = u_id u) (save (\<lambda>w. u_id w = u_id u) u' us) = Some u'" by simp
  with c show ?thesis by (simp add: findById_def)
qed

subsection \<open>Rounding\<close>

text \<open>From - 2^53 up to, but not including, 2^53, adding 1 to a Number is exact.\<close>

lemma roundInt_succ: "- (2 ^ 53) \<le> s \<Longrightarrow> s < 2 ^ 53 \<Longrightarrow> roundInt (s + 1) = s + 1"
  by (auto simp: roundInt_def roundNat_def)

text \<open>At 2^53 it is not: the sum 2^53 + 1 is a tie and rounds back to 2^53.\<close>

lemma roundInt_2_53: "roundInt (9007199254740992 + 1) = 9007199254740992"
  by (simp add: roundInt_def roundNat_def bitlen.simps Let_def)

text \<open>\<open>parseInt\<close> rounds what it reads: 2^53 + 1 is read as 2^53.\<close>

lemma parseInt_rounds: "parseInt ''9007199254740993'' = Finite 9007199254740992"
  by (simp add: parseInt_def stripSign_def stripPrefix_def wsLen_def isDigit_def digitVal_def
      digitsValue_def toNumber_def roundNat_def bitlen.simps Let_def)

text \<open>It stops at the first character that is no digit: the text of 7e21 is read as 7.\<close>

lemma parseInt_exponent_text: "parseInt ''7e+21'' = Finite 7"
  by (simp add: parseInt_def stripSign_def stripPrefix_def wsLen_def isDigit_def digitVal_def
      digitsValue_def toNumber_def roundNat_def Let_def)

subsection \<open>The solve workflow\<close>

text \<open>
  What solve does once the quiz and the user are found and the user has no solver
  record in the quiz: the response and the database it leaves, for either judgement.
\<close>

lemma solve_judged:
  assumes quiz: "find (\<lambda>p. date p = d) (problems D) = Some p"
    and usr: "findById (users D) v = Inr (Some u)"
    and fresh: "u_id u \<notin> s_userId ` set (solvers p)"
  shows "solve d v a t1 t2 D =
    (let correct = (Finite (answer p) = parseInt a);
         p' = p\<lparr>solvers := solvers p @
                [\<lparr>s_userId = u_id u, s_name = name u, isCorrect = correct, solvedAt = t1\<rparr>]\<rparr>;
         u' = u\<lparr>score := roundInt (score u + 1), latestQuizDate := Some t2\<rparr>
     in ((200, SolveJson True correct (if correct then roundInt (score u + 1) else score u)),
         \<lparr>users = (if correct then save (\<lambda>w. u_id w = u_id u) u' (users D) else users D),
          problems = save (\<lambda>q. date q = d) p' (problems D)\<rparr>))"
proof -
  from fresh have nex: "\<not> list_ex (\<lambda>s. s_userId s = u_id u) (solvers p)"
    by (force simp: list_ex_iff)
  show ?thesis
    using quiz usr nex by (simp add: solve_def Let_def)
qed

text \<open>Concrete readings used by the runs on the small database.\<close>

lemma hex_idU: "castObjectId idU = Some 1"
  by (simp add: idU_def castObjectId_def isDigit_def digitVal_def digitsValue_def)

lemma parseInt_7: "parseInt ''7'' = Finite 7"
  by (simp add: parseInt_def stripSign_def stripPrefix_def wsLen_def isDigit_def digitVal_def
      digitsValue_def toNumber_def roundNat_def Let_def)

lemma parseInt_3: "parseInt ''3'' = Finite 3"
  by (simp add: parseInt_def stripSign_def stripPrefix_def wsLen_def isDigit_def digitVal_def
      digitsValue_def toNumber_def roundNat_def Let_def)

lemma parseInt_7abc: "parseInt ''7abc'' = Finite 7"
  by (simp add: parseInt_def stripSign_def stripPrefix_def wsLen_def isDigit_def digitVal_def
      digitsValue_def toNumber_def roundNat_def Let_def)

lemma db1_quiz: "find (\<lambda>p. date p = ''2025-01-01'') (problems db1) = Some quiz1"
  by (simp add: db1_def quiz1_def)

lemma db1_user: "findById (users db1) (Some idU) = Inr (Some userU)"
  by (simp add: findById_def hex_idU db1_def userU_def)

lemma db1_fresh: "u_id userU \<notin> s_userId ` set (solvers quiz1)"
  by (simp add: quiz1_def)

lemma db1_fields:
  "u_id userU = 1" "score userU = 0" "name userU = ''kim''"
  "date quiz1 = ''2025-01-01''" "solvers quiz1 = []" "answer quiz1 = 7"
  by (simp_all add: userU_def quiz1_def)

text \<open>
  Claim C1 as stated fails: the user's score is 2^53, the submitted answer 7 is the
  stored answer, and the score after the call is still 2^53, since the Number 2^53 + 1
  does not exist and the sum rounds back. The response reports newScore = 2^53, which is
  not the prior score + 1.
\<close>

theorem solve_correct_answer_score_2_53:
  "score userM = 9007199254740992 \<and>
   solve ''2025-01-01'' (Some idU) ''7'' 10 11 db5 =
     ((200, SolveJson True True 9007199254740992),
      \<lparr>users = [userM\<lparr>latestQuizDate := Some 11\<rparr>],
       problems = [quiz1\<lparr>solvers := [\<lparr>s_userId = 1, s_name = ''kim'', isCorrect = True, solvedAt = 10\<rparr>]\<rparr>]\<rparr>)"
proof -
  have quiz: "find (\<lambda>p. date p = ''2025-01-01'') (problems db5) = Some quiz1"
    by (simp add: db5_def quiz1_def)
  have usr: "findById (users db5) (Some idU) = Inr (Some userM)"
    by (simp add: findById_def hex_idU db5_def userM_def)
  have fresh: "u_id userM \<notin> s_userId ` set (solvers quiz1)"
    by (simp add: quiz1_def)
  have fields: "u_id userM = 1" "score userM = 9007199254740992" "name userM = ''kim''"
    by (simp_all add: userM_def)
  have r: "roundInt 9007199254740993 = 9007199254740992"
    using roundInt_2_53 by simp
  have "solve ''2025-01-01'' (Some idU) ''7'' 10 11 db5 =
     ((200, SolveJson True True 9007199254740992),
      \<lparr>users = [userM\<lparr>latestQuizDate := Some 11\<rparr>],
       problems = [quiz1\<lparr>solvers := [\<lparr>s_userId = 1, s_name = ''kim'', isCorrect = True, solvedAt = 10\<rparr>]\<rparr>]\<rparr>)"
    using solve_judged[OF quiz usr fresh, of "''7''" 10 11]
    by (simp add: parseInt_7 fields db1_fields r db5_def userM_def)
  then show ?thesis by (simp add: fields)
qed

text \<open>
  Claim C1, amended. For a quiz stored under the date, an existing user whose id is not
  among the quiz's solvers and whose score is below 2^53 (and not below - 2^53), and a submitted
  answer that \<open>parseInt\<close> reads as the stored answer, solve answers 200 with success =
  true, isCorrect = true and newScore = the prior score + 1. The database it leaves has
  the solver record (the user's id and name, isCorrect = true, solvedAt = the first
  clock reading) appended to that quiz, and the user saved with the score raised by
  exactly 1 and latestQuizDate set to the second clock reading, which is not null;
  looking the quiz and the user up again returns exactly these documents.
\<close>

theorem solve_correct_answer:
  assumes quiz: "find (\<lambda>p. date p = d) (problems D) = Some p"
    and usr: "findById (users D) v = Inr (Some u)"
    and fresh: "u_id u \<notin> s_userId ` set (solvers p)"
    and right: "parseInt a = Finite (answer p)"
    and bound: "- (2 ^ 53) \<le> score u" "score u < 2 ^ 53"
  shows "solve d v a t1 t2 D =
           ((200, SolveJson True True (score u + 1)),
            \<lparr>users = save (\<lambda>w. u_id w = u_id u)
                       (u\<lparr>score := score u + 1, latestQuizDate := Some t2\<rparr>) (users D),
             problems = save (\<lambda>q. date q = d)
                       (p\<lparr>solvers := solvers p @
                          [\<lparr>s_userId = u_id u, s_name = name u, isCorrect = True, solvedAt = t1\<rparr>]\<rparr>)
                       (problems D)\<rparr>)
         \<and> find (\<lambda>q. date q = d) (problems (snd (solve d v a t1 t2 D))) =
             Some (p\<lparr>solvers := solvers p @
                    [\<lparr>s_userId = u_id u, s_name = name u, isCorrect = True, solvedAt = t1\<rparr>]\<rparr>)
         \<and> findById (users (snd (solve d v a t1 t2 D))) v =
             Inr (Some (u\<lparr>score := score u + 1, latestQuizDate := Some t2\<rparr>))"
proof -
  have eq: "solve d v a t1 t2 D =
           ((200, SolveJson True True (score u + 1)),
            \<lparr>users = save (\<lambda>w. u_id w = u_id u)
                       (u\<lparr>score := score u + 1, latestQuizDate := Some t2\<rparr>) (users D),
             problems = save (\<lambda>q. date q = d)
                       (p\<lparr>solvers := solvers p @
                          [\<lparr>s_userId = u_id u, s_name = name u, isCorrect = True, solvedAt = t1\<rparr>]\<rparr>)
                       (problems D)\<rparr>)"
    using solve_judged[OF quiz usr fresh, of a t1 t2] right roundInt_succ[OF bound]
    by (simp add: Let_def)
  have dp: "date p = d" using find_in_set[OF quiz] by simp
  have rb1: "find (\<lambda>q. date q = d) (save (\<lambda>q. date q = d)
                       (p\<lparr>solvers := solvers p @
                          [\<lparr>s_userId = u_id u, s_name = name u, isCorrect = True, solvedAt = t1\<rparr>]\<rparr>)
                       (problems D)) = Some (p\<lparr>solvers := solvers p @
                          [\<lparr>s_userId = u_id u, s_name = name u, isCorrect = True, solvedAt = t1\<rparr>]\<rparr>)"
    by (rule find_save[OF quiz]) (simp add: dp)
  have rb2: "findById (save (\<lambda>w. u_id w = u_id u)
                       (u\<lparr>score := score u + 1, latestQuizDate := Some t2\<rparr>) (users D)) v
       = Inr (Some (u\<lparr>score := score u + 1, latestQuizDate := Some t2\<rparr>))"
    by (rule findById_save[OF usr]) simp
  show ?thesis using rb1 rb2 by (simp add: eq)
qed

text \<open>
  The workflow of the specification: the user with score 0 submits 7 to the quiz of
  2025-01-01 whose answer is 7.
\<close>

theorem solve_correct_answer_witness:
  "solve ''2025-01-01'' (Some idU) ''7'' 10 11 db1 =
     ((200, SolveJson True True 1),
      \<lparr>users = [userU\<lparr>score := 1, latestQuizDate := Some 11\<rparr>],
       problems = [quiz1\<lparr>solvers := [\<lparr>s_userId = 1, s_name = ''kim'', isCorrect = True, solvedAt = 10\<rparr>]\<rparr>]\<rparr>)
   \<and> find (\<lambda>q. date q = ''2025-01-01'') (problems (snd (solve ''2025-01-01'' (Some idU) ''7'' 10 11 db1))) =
       Some (quiz1\<lparr>solvers := [\<lparr>s_userId = 1, s_name = ''kim'', isCorrect = True, solvedAt = 10\<rparr>]\<rparr>)
   \<and> findById (users (snd (solve ''2025-01-01'' (Some idU) ''7'' 10 11 db1))) (Some idU) =
       Inr (Some (userU\<lparr>score := 1, latestQuizDate := Some 11\<rparr>))"
proof -
  have right: "parseInt ''7'' = Finite (answer quiz1)"
    by (simp add: parseInt_7 db1_fields)
  have bound: "- (2 ^ 53) \<le> score userU" "score userU < 2 ^ 53"
    by (simp_all add: db1_fields)
  have "solve ''2025-01-01'' (Some idU) ''7'' 10 11 db1 =
     ((200, SolveJson True True 1),
      \<lparr>users = [userU\<lparr>score := 1, latestQuizDate := Some 11\<rparr>],
       problems = [quiz1\<lparr>solvers := [\<lparr>s_userId = 1, s_name = ''kim'', isCorrect = True, solvedAt = 10\<rparr>]\<rparr>]\<rparr>)"
    using solve_correct_answer[OF db1_quiz db1_user db1_fresh right bound, of 10 11, THEN conjunct1]
    by (simp add: db1_def db1_fields)
  then show ?thesis by (simp add: findById_def hex_idU db1_fields)
qed

text \<open>
  Claim C3. For a quiz stored under the date, an existing user whose id is not among the
  quiz's solvers, and a submitted answer that \<open>parseInt\<close> does not read as the stored
  answer, solve answers 200 with success = true, isCorrect = false and newScore = the
  user's unchanged score. The database differs from the one before only in the problems
  collection, where the quiz has the solver record with isCorrect = false appended: the
  users collection is the same list, the user looked up again is the same document, and
  the quiz keeps its date, question and answer.
\<close>

theorem solve_wrong_answer:
  assumes quiz: "find (\<lambda>p. date p = d) (problems D) = Some p"
    and usr: "findById (users D) v = Inr (Some u)"
    and fresh: "u_id u \<notin> s_userId ` set (solvers p)"
    and wrong: "parseInt a \<noteq> Finite (answer p)"
  shows "solve d v a t1 t2 D =
           ((200, SolveJson True False (score u)),
            D\<lparr>problems := save (\<lambda>q. date q = d)
                 (p\<lparr>solvers := solvers p @
                    [\<lparr>s_userId = u_id u, s_name = name u, isCorrect = False, solvedAt = t1\<rparr>]\<rparr>)
                 (problems D)\<rparr>)
         \<and> users (snd (solve d v a t1 t2 D)) = users D
         \<and> findById (users (snd (solve d v a t1 t2 D))) v = Inr (Some u)
         \<and> find (\<lambda>q. date q = d) (problems (snd (solve d v a t1 t2 D))) =
             Some \<lparr>date = date p, question = question p, answer = answer p,
                   solvers = solvers p @
                    [\<lparr>s_userId = u_id u, s_name = name u, isCorrect = False, solvedAt = t1\<rparr>]\<rparr>
         \<and> (\<exists>ys zs. problems D = ys @ p # zs \<and>
               problems (snd (solve d v a t1 t2 D)) =
                 ys @ \<lparr>date = date p, question = question p, answer = answer p,
                        solvers = solvers p @
                          [\<lparr>s_userId = u_id u, s_name = name u, isCorrect = False, solvedAt = t1\<rparr>]\<rparr> # zs)"
proof -
  have neq: "Finite (answer p) \<noteq> parseInt a" using wrong by auto
  have eq: "solve d v a t1 t2 D =
           ((200, SolveJson True False (score u)),
            D\<lparr>problems := save (\<lambda>q. date q = d)
                 (p\<lparr>solvers := solvers p @
                    [\<lparr>s_userId = u_id u, s_name = name u, isCorrect = False, solvedAt = t1\<rparr>]\<rparr>)
                 (problems D)\<rparr>)"
    using solve_judged[OF quiz usr fresh, of a t1 t2] neq by (simp add: Let_def)
  have dp: "date p = d" using find_in_set[OF quiz] by simp
  have rb: "find (\<lambda>q. date q = d) (save (\<lambda>q. date q = d)
                 (p\<lparr>solvers := solvers p @
                    [\<lparr>s_userId = u_id u, s_name = name u, isCorrect = False, solvedAt = t1\<rparr>]\<rparr>)
                 (problems D)) = Some (p\<lparr>solvers := solvers p @
                    [\<lparr>s_userId = u_id u, s_name = name u, isCorrect = False, solvedAt = t1\<rparr>]\<rparr>)"
    by (rule find_save[OF quiz]) (simp add: dp)
  from save_first_match[OF quiz, of "p\<lparr>solvers := solvers p @
        [\<lparr>s_userId = u_id u, s_name = name u, isCorrect = False, solvedAt = t1\<rparr>]\<rparr>"]
  obtain ys zs where fr: "problems D = ys @ p # zs"
    "save (\<lambda>q. date q = d) (p\<lparr>solvers := solvers p @
        [\<lparr>s_userId = u_id u, s_name = name u, isCorrect = False, solvedAt = t1\<rparr>]\<rparr>) (problems D) =
     ys @ p\<lparr>solvers := solvers p @
        [\<lparr>s_userId = u_id u, s_name = name u, isCorrect = False, solvedAt = t1\<rparr>]\<rparr> # zs"
    by blast
  have frame: "\<exists>ys zs. problems D = ys @ p # zs \<and>
               problems (snd (solve d v a t1 t2 D)) =
                 ys @ \<lparr>date = date p, question = question p, answer = answer p,
                        solvers = solvers p @
                          [\<lparr>s_userId = u_id u, s_name = name u, isCorrect = False, solvedAt = t1\<rparr>]\<rparr> # zs"
    using fr by (intro exI[of _ ys] exI[of _ zs]) (simp add: eq)
  show ?thesis using rb usr frame by (simp add: eq)
qed

text \<open>The user submits 3 to the quiz whose answer is 7.\<close>

theorem solve_wrong_answer_witness:
  "solve ''2025-01-01'' (Some idU) ''3'' 10 11 db1 =
     ((200, SolveJson True False 0),
      \<lparr>users = [userU],
       problems = [quiz1\<lparr>solvers := [\<lparr>s_userId = 1, s_name = ''kim'', isCorrect = False, solvedAt = 10\<rparr>]\<rparr>]\<rparr>)"
proof -
  have wrong: "parseInt ''3'' \<noteq> Finite (answer quiz1)"
    by (simp add: parseInt_3 db1_fields)
  show ?thesis
    using solve_wrong_answer[OF db1_quiz db1_user db1_fresh wrong, of 10 11, THEN conjunct1]
    by (simp add: db1_def db1_fields)
qed

text \<open>
  The number 7e21 is submitted as the text 7e+21, which \<open>parseInt\<close> reads as 7: against
  the stored answer 7 it is a correct answer.
\<close>

lemma solve_exponent_text:
  "fst (solve ''2025-01-01'' (Some idU) ''7e+21'' 10 11 db1) = (200, SolveJson True True 1)"
proof -
  have r: "roundInt 1 = 1" by (simp add: roundInt_def roundNat_def)
  show ?thesis
    using solve_judged[OF db1_quiz db1_user db1_fresh, of "''7e+21''" 10 11]
    by (simp add: parseInt_exponent_text db1_fields r)
qed

subsection \<open>One attempt for each user\<close>

lemma solve_already_solved:
  assumes quiz: "find (\<lambda>p. date p = d) (problems D) = Some p"
    and usr: "findById (users D) v = Inr (Some u)"
    and solved: "u_id u \<in> s_userId ` set (solvers p)"
  shows "solve d v a t1 t2 D = ((400, Send AlreadySolved), D)"
proof -
  from solved have ex: "list_ex (\<lambda>s. s_userId s = u_id u) (solvers p)"
    by (force simp: list_ex_iff)
  show ?thesis using quiz usr ex by (simp add: solve_def)
qed

lemma solve_problems_cases:
  "problems (snd (solve d v a t1 t2 D)) = problems D \<or>
   (\<exists>p s. find (\<lambda>p. date p = d) (problems D) = Some p \<and>
      s_userId s \<notin> s_userId ` set (solvers p) \<and>
      problems (snd (solve d v a t1 t2 D)) =
        save (\<lambda>q. date q = d) (p\<lparr>solvers := solvers p @ [s]\<rparr>) (problems D))"
proof (cases "findById (users D) v")
  case (Inl e)
  then show ?thesis by (simp add: solve_def)
next
  case (Inr looked)
  show ?thesis
  proof (cases "find (\<lambda>p. date p = d) (problems D)")
    case None
    with Inr show ?thesis by (simp add: solve_def)
  next
    case (Some p)
    show ?thesis
    proof (cases looked)
      case None
      with Inr Some show ?thesis by (simp add: solve_def)
    next
      case (Some u)
      note usr = Inr[unfolded Some]
      show ?thesis
      proof (cases "u_id u \<in> s_userId ` set (solvers p)")
        case True
        from solve_already_solved[OF \<open>find (\<lambda>p. date p = d) (problems D) = Some p\<close> usr True]
        show ?thesis by simp
      next
        case False
        from solve_judged[OF \<open>find (\<lambda>p. date p = d) (problems D) = Some p\<close> usr False, of a t1 t2]
        have "problems (snd (solve d v a t1 t2 D)) =
           save (\<lambda>q. date q = d)
          (p\<lparr>solvers := solvers p @ [\<lparr>s_userId = u_id u, s_name = name u,
               isCorrect = (Finite (answer p) = parseInt a), solvedAt = t1\<rparr>]\<rparr>)
          (problems D)"
          by (simp add: Let_def)
        with False \<open>find (\<lambda>p. date p = d) (problems D) = Some p\<close> show ?thesis
          by (intro disjI2 exI[of _ p]
              exI[of _ "\<lparr>s_userId = u_id u, s_name = name u,
                isCorrect = (Finite (answer p) = parseInt a), solvedAt = t1\<rparr>"]) simp
      qed
    qed
  qed
qed

lemma solve_preserves: "one_record_per_user D \<Longrightarrow> one_record_per_user (snd (solve d v a t1 t2 D))"
proof -
  assume inv: "one_record_per_user D"
  from solve_problems_cases[of d v a t1 t2 D] show ?thesis
  proof
    assume "problems (snd (solve d v a t1 t2 D)) = problems D"
    with inv show ?thesis by (simp add: one_record_per_user_def)
  next
    assume "\<exists>p s. find (\<lambda>p. date p = d) (problems D) = Some p \<and>
      s_userId s \<notin> s_userId ` set (solvers p) \<and>
      problems (snd (solve d v a t1 t2 D)) =
        save (\<lambda>q. date q = d) (p\<lparr>solvers := solvers p @ [s]\<rparr>) (problems D)"
    then obtain p s where f: "find (\<lambda>p. date p = d) (problems D) = Some p"
      and n: "s_userId s \<notin> s_userId ` set (solvers p)"
      and e: "problems (snd (solve d v a t1 t2 D)) =
        save (\<lambda>q. date q = d) (p\<lparr>solvers := solvers p @ [s]\<rparr>) (problems D)"
      by (elim exE conjE)
    from find_in_set[OF f] inv have "distinct (map s_userId (solvers p))"
      by (auto simp: one_record_per_user_def list_all_iff)
    with n have "distinct (map s_userId (solvers (p\<lparr>solvers := solvers p @ [s]\<rparr>)))"
      by simp
    with inv show ?thesis unfolding one_record_per_user_def e
      by (intro list_all_save) simp_all
  qed
qed

lemma createProblem_preserves:
  "one_record_per_user D \<Longrightarrow> one_record_per_user (snd (createProblem d q a D))"
  by (auto simp: createProblem_def Problem_create_def one_record_per_user_def Let_def
      split: option.splits sum.splits if_splits)

lemma login_problems: "problems (snd (login n f i t D)) = problems D"
  by (auto simp: login_def Let_def split: option.splits sum.splits if_splits)

lemma handle_preserves: "one_record_per_user D \<Longrightarrow> one_record_per_user (snd (handle r D))"
proof (cases r)
  case (Login n f i t)
  assume "one_record_per_user D"
  then show ?thesis using login_problems[of n f i t D] Login by (simp add: one_record_per_user_def)
next
  case (AdminAuth i p)
  assume "one_record_per_user D"
  then show ?thesis using AdminAuth by (simp add: adminAuth_def split: option.splits)
next
  case ListUsers
  assume "one_record_per_user D"
  then show ?thesis using ListUsers by (simp add: listUsers_def)
next
  case ListProblems
  assume "one_record_per_user D"
  then show ?thesis using ListProblems by (simp add: listProblems_def)
next
  case (CreateProblem d q a)
  assume "one_record_per_user D"
  then show ?thesis using CreateProblem by (simp add: createProblem_preserves)
next
  case (Solve d u a t1 t2)
  assume "one_record_per_user D"
  then show ?thesis using Solve by (simp add: solve_preserves)
qed

lemma run_preserves: "one_record_per_user D \<Longrightarrow> one_record_per_user (run rs D)"
  by (induction rs arbitrary: D) (simp_all add: handle_preserves)

text \<open>
  Claim C2. When the quiz's solvers already hold a record of the user's id, solve
  answers 400 with the already-solved message and leaves the database as it was: no
  solver record is appended and no score changes. Consequently every request keeps the
  invariant that a quiz has at most one solver record for each user id, and the
  invariant holds after every sequence of requests handled one at a time from the
  empty database.
\<close>

theorem solve_once_per_user:
  "(find (\<lambda>p. date p = d) (problems D) = Some p \<and> findById (users D) v = Inr (Some u) \<and>
      u_id u \<in> s_userId ` set (solvers p)
      \<longrightarrow> solve d v a t1 t2 D = ((400, Send AlreadySolved), D))
   \<and> (one_record_per_user D \<longrightarrow> one_record_per_user (snd (handle r D)))
   \<and> one_record_per_user (run rs \<lparr>users = [], problems = []\<rparr>)"
proof (intro conjI impI)
  assume "find (\<lambda>p. date p = d) (problems D) = Some p \<and> findById (users D) v = Inr (Some u) \<and>
      u_id u \<in> s_userId ` set (solvers p)"
  then show "solve d v a t1 t2 D = ((400, Send AlreadySolved), D)"
    by (simp add: solve_already_solved)
next
  assume "one_record_per_user D"
  then show "one_record_per_user (snd (handle r D))" by (rule handle_preserves)
next
  have "one_record_per_user \<lparr>users = [], problems = []\<rparr>"
    by (simp add: one_record_per_user_def)
  then show "one_record_per_user (run rs \<lparr>users = [], problems = []\<rparr>)"
    by (rule run_preserves)
qed

text \<open>
  The second attempt of the specification's workflow: the user who has solved the quiz
  submits again, is refused, and the score stays 1; and the first attempt kept the
  invariant.
\<close>

theorem solve_once_per_user_witness:
  "solve ''2025-01-01'' (Some idU) ''7'' 12 13 db2 = ((400, Send AlreadySolved), db2)
   \<and> one_record_per_user (snd (handle (Solve ''2025-01-01'' (Some idU) ''7'' 10 11) db1))"
proof -
  have quiz: "find (\<lambda>p. date p = ''2025-01-01'') (problems db2) = Some solved1"
    by (simp add: db2_def solved1_def)
  have usr: "findById (users db2) (Some idU) = Inr (Some (userU\<lparr>score := 1, latestQuizDate := Some 11\<rparr>))"
    by (simp add: findById_def hex_idU db2_def userU_def)
  have solved: "u_id (userU\<lparr>score := 1, latestQuizDate := Some 11\<rparr>) \<in> s_userId ` set (solvers solved1)"
    by (simp add: solved1_def userU_def)
  have inv: "one_record_per_user db1"
    by (simp add: one_record_per_user_def db1_def quiz1_def)
  from solve_once_per_user[of "''2025-01-01''" db2 solved1 "Some idU"
      "userU\<lparr>score := 1, latestQuizDate := Some 11\<rparr>" "''7''" 12 13] quiz usr solved
  have a: "solve ''2025-01-01'' (Some idU) ''7'' 12 13 db2 = ((400, Send AlreadySolved), db2)"
    by blast
  from solve_once_per_user[where D = db1 and r = "Solve ''2025-01-01'' (Some idU) ''7'' 10 11"] inv
  have b: "one_record_per_user (snd (handle (Solve ''2025-01-01'' (Some idU) ''7'' 10 11) db1))"
    by blast
  from a b show ?thesis by simp
qed

subsection \<open>Lookups that fail\<close>

lemma castObjectId_abc: "castObjectId ''abc'' = None"
  by (simp add: castObjectId_def)

lemma castObjectId_a: "castObjectId ''00000000000000000000000a'' = Some 10"
  by (simp add: castObjectId_def isDigit_def digitVal_def digitsValue_def)

text \<open>
  Claim C10 as stated fails: a solve request whose body has no userId (or has null)
  carries no well-formed object id, yet the user lookup does not throw. It is made with
  null and finds no user, and the handler answers 404 with the not-found message, not
  500, here for a quiz that exists.
\<close>

theorem solve_missing_userId_not_found:
  "find (\<lambda>p. date p = ''2025-01-01'') (problems db1) = Some quiz1 \<and>
   solve ''2025-01-01'' None ''7'' 10 11 db1 = ((404, Send NotFound), db1) \<and>
   fst (solve ''2025-01-01'' None ''7'' 10 11 db1) \<noteq> (500, Send (ErrMessage CastError))"
  by (simp add: solve_def findById_def db1_def quiz1_def)

text \<open>
  Claim C10, amended. When the userId of a solve request is a string that is not a
  well-formed object id, the cast in \<open>findById\<close> throws: the handler answers 500 with
  the message of the cast error, not the 404 of the not-found branch, and the database
  is the one it was given, so no solver record is appended and no score changes. This
  holds whether or not a quiz is stored under the date. When the userId is missing or
  null nothing is cast, no user is found, the handler answers 404, and the database is
  unchanged as well.
\<close>

theorem solve_malformed_userId:
  "(castObjectId uid = None \<longrightarrow>
      solve d (Some uid) a t1 t2 D = ((500, Send (ErrMessage CastError)), D))
   \<and> solve d None a t1 t2 D = ((404, Send NotFound), D)"
  by (auto simp: solve_def findById_def split: option.splits)

text \<open>The user id abc is refused, for the quiz that exists.\<close>

theorem solve_malformed_userId_witness:
  "castObjectId ''abc'' = None \<and>
   solve ''2025-01-01'' (Some ''abc'') ''7'' 10 11 db1 = ((500, Send (ErrMessage CastError)), db1)"
  using solve_malformed_userId[of "''abc''" "''2025-01-01''" "''7''" 10 11 db1]
  by (simp add: castObjectId_abc)

text \<open>
  Claim C4 as stated fails: here no quiz is stored under the date 2099-12-31, so the
  quiz looked up by date is absent, and the call does not answer 404. The user id abc
  makes the user lookup throw, and the handler answers 500.
\<close>

theorem solve_absent_quiz_malformed_userId:
  "find (\<lambda>p. date p = ''2099-12-31'') (problems db1) = None \<and>
   solve ''2099-12-31'' (Some ''abc'') ''7'' 10 11 db1 = ((500, Send (ErrMessage CastError)), db1) \<and>
   fst (solve ''2099-12-31'' (Some ''abc'') ''7'' 10 11 db1) \<noteq> (404, Send NotFound)"
  by (simp add: solve_def findById_def castObjectId_abc db1_def quiz1_def)

text \<open>
  Claim C4, amended. For every solve call whose userId is a well-formed object id, if no
  quiz is stored under the date or no user has that id, the call answers 404 with the
  not-found message and the database is unchanged: no solver record is appended to any
  quiz and no user's score or latestQuizDate changes.
\<close>

theorem solve_not_found:
  assumes "castObjectId uid = Some i"
    and "find (\<lambda>p. date p = d) (problems D) = None \<or> find (\<lambda>u. u_id u = i) (users D) = None"
  shows "solve d (Some uid) a t1 t2 D = ((404, Send NotFound), D)"
  using assms by (auto simp: solve_def findById_def split: option.splits)

text \<open>A date with no quiz, and the well-formed id 10 that no user has.\<close>

theorem solve_not_found_witness:
  "solve ''2099-12-31'' (Some idU) ''7'' 10 11 db1 = ((404, Send NotFound), db1) \<and>
   solve ''2025-01-01'' (Some ''00000000000000000000000a'') ''7'' 10 11 db1 = ((404, Send NotFound), db1)"
proof -
  have q: "find (\<lambda>p. date p = ''2099-12-31'') (problems db1) = None"
    by (simp add: db1_def quiz1_def)
  have u: "find (\<lambda>u. u_id u = 10) (users db1) = None"
    by (simp add: db1_def userU_def)
  from solve_not_found[OF hex_idU disjI1[OF q]] solve_not_found[OF castObjectId_a disjI2[OF u]]
  show ?thesis by simp
qed

subsection \<open>Creating a quiz\<close>

text \<open>
  Claim C5 on the code. A request to create a quiz whose answer is the number 0 is
  answered 400 with the all-fields-required message, whatever its date and question,
  and the database is unchanged: \<open>!answer\<close> holds of 0. The insertion the guard keeps
  it from would have succeeded: \<open>Problem.create\<close> takes the answer 0 as present.
\<close>

theorem createProblem_zero_answer:
  "createProblem d q (Typed 0) D = ((400, Send AllFieldsRequired), D) \<and>
   Problem_create (Typed ''2025-01-02'') (Typed ''1 - 1'') (Typed 0) (problems db1) =
     Inr (\<lparr>date = ''2025-01-02'', question = ''1 - 1'', answer = 0, solvers = []\<rparr>,
          [quiz1, \<lparr>date = ''2025-01-02'', question = ''1 - 1'', answer = 0, solvers = []\<rparr>])"
  by (simp add: createProblem_def falsy_number_field_def Problem_create_def schemaCast_def
      db1_def quiz1_def Let_def)

text \<open>
  A present answer that is no number, such as the string abc, passes the presence check
  and fails the schema's cast before anything is inserted: the error is no duplicate
  key, and the handler answers 500, also for a date that has a quiz.
\<close>

lemma createProblem_uncastable_answer:
  "createProblem (Typed ''2025-01-01'') (Typed ''5 + 5'') Uncastable db1 =
     ((500, Send (ErrMessage ValidationError)), db1)"
  by (simp add: createProblem_def falsy_string_field_def falsy_number_field_def
      Problem_create_def schemaCast_def)

text \<open>
  Claim C6 as stated fails: a quiz is stored under 2025-01-01, and a second request to
  create a quiz with that date, sent without a question, is answered 400 with the
  all-fields-required message, not with the conflict: the presence check of the fields
  comes before the insertion.
\<close>

theorem createProblem_duplicate_date_missing_question:
  "find (\<lambda>p. date p = ''2025-01-01'') (problems db1) = Some quiz1 \<and>
   createProblem (Typed ''2025-01-01'') Missing (Typed 10) db1 = ((400, Send AllFieldsRequired), db1) \<and>
   fst (createProblem (Typed ''2025-01-01'') Missing (Typed 10) db1) \<noteq> (409, Send ProblemExists)"
  by (simp add: createProblem_def falsy_string_field_def db1_def quiz1_def)

text \<open>
  Claim C6, amended. When a quiz is already stored under a date, a second request to
  create a quiz with that date is answered 409 with the conflict message whenever its
  insertion reaches the database: its three fields pass the presence check, and the
  schema casts them to a non-empty date, a non-empty question and a number. Whatever
  the question and the answer of the request are, it leaves the database unchanged: the
  quiz stored under the date is still the one that was there, with its date, question,
  answer and solvers.
\<close>

theorem createProblem_duplicate_date:
  assumes stored: "find (\<lambda>p. date p = d) (problems D) = Some p"
    and same: "schemaCast date_field = Some d"
  shows "(\<not> falsy_string_field date_field \<and> \<not> falsy_string_field question_field \<and>
          \<not> falsy_number_field answer_field \<and> d \<noteq> [] \<and>
          (\<exists>q. schemaCast question_field = Some q \<and> q \<noteq> []) \<and>
          (\<exists>n. schemaCast answer_field = Some n)
            \<longrightarrow> createProblem date_field question_field answer_field D =
                  ((409, Send ProblemExists), D))
       \<and> snd (createProblem date_field question_field answer_field D) = D
       \<and> find (\<lambda>p. date p = d)
           (problems (snd (createProblem date_field question_field answer_field D))) = Some p"
proof -
  from find_in_set[OF stored] have ex: "list_ex (\<lambda>p. date p = d) (problems D)"
    by (auto simp: list_ex_iff)
  have conflict: "createProblem date_field question_field answer_field D =
      ((409, Send ProblemExists), D)"
    if "\<not> falsy_string_field date_field \<and> \<not> falsy_string_field question_field \<and>
        \<not> falsy_number_field answer_field \<and> d \<noteq> [] \<and>
        (\<exists>q. schemaCast question_field = Some q \<and> q \<noteq> []) \<and>
        (\<exists>n. schemaCast answer_field = Some n)"
    using that ex same by (auto simp: createProblem_def Problem_create_def)
  have unchanged: "snd (createProblem date_field question_field answer_field D) = D"
    using ex same
    by (auto simp: createProblem_def Problem_create_def Let_def
        split: option.splits sum.splits if_splits)
  from conflict unchanged stored show ?thesis by simp
qed

text \<open>
  A second quiz for 2025-01-01 is refused and the first one stays, for an answer given
  as a number and for one given as a string that the schema casts to a number.
\<close>

theorem createProblem_duplicate_date_witness:
  "createProblem (Typed ''2025-01-01'') (Typed ''5 + 5'') (Typed 10) db1 = ((409, Send ProblemExists), db1)
   \<and> createProblem (Typed ''2025-01-01'') (Typed ''5 + 5'') (Castable 10) db1 = ((409, Send ProblemExists), db1)
   \<and> find (\<lambda>p. date p = ''2025-01-01'')
        (problems (snd (createProblem (Typed ''2025-01-01'') (Typed ''5 + 5'') (Typed 10) db1))) = Some quiz1"
proof -
  have c: "schemaCast (Typed ''2025-01-01'') = Some ''2025-01-01''"
    by (simp add: schemaCast_def)
  have g: "\<not> falsy_string_field (Typed ''2025-01-01'') \<and> \<not> falsy_string_field (Typed ''5 + 5'') \<and>
      \<not> falsy_number_field (Typed 10) \<and> ''2025-01-01'' \<noteq> [] \<and>
      (\<exists>q. schemaCast (Typed ''5 + 5'') = Some q \<and> q \<noteq> []) \<and>
      (\<exists>n. schemaCast (Typed (10::int)) = Some n)"
    by (simp add: falsy_string_field_def falsy_number_field_def schemaCast_def)
  have g': "\<not> falsy_string_field (Typed ''2025-01-01'') \<and> \<not> falsy_string_field (Typed ''5 + 5'') \<and>
      \<not> falsy_number_field (Castable 10) \<and> ''2025-01-01'' \<noteq> [] \<and>
      (\<exists>q. schemaCast (Typed ''5 + 5'') = Some q \<and> q \<noteq> []) \<and>
      (\<exists>n. schemaCast (Castable (10::int)) = Some n)"
    by (simp add: falsy_string_field_def falsy_number_field_def schemaCast_def)
  from createProblem_duplicate_date[OF db1_quiz c, of "Typed ''5 + 5''" "Typed 10"] g
    createProblem_duplicate_date[OF db1_quiz c, of "Typed ''5 + 5''" "Castable 10"] g'
  show ?thesis by blast
qed

subsection \<open>Login\<close>

lemma find_append_new: "find P xs = None \<Longrightarrow> P y \<Longrightarrow> find P (xs @ [y]) = Some y"
  by (induction xs) (auto split: if_splits)

lemma User_create_Inr:
  "User_create i nm uid pw adm us = Inr (u, us') \<Longrightarrow> us' = us @ [u] \<and> name u = nm"
  by (auto simp: User_create_def Let_def split: if_splits)

lemma login_found:
  "n \<noteq> [] \<Longrightarrow> find (\<lambda>u. name u = n) (users D) = Some u \<Longrightarrow>
   login (Some n) f i t D = ((200, UserJson (withoutPassword u)), D)"
  by (simp add: login_def falsy_string_def)

lemma login_new:
  assumes "n \<noteq> []" and "find (\<lambda>u. name u = n) (users D) = None"
    and "login (Some n) f i t D = ((200, UserJson u1), D1)"
  shows "\<exists>u. u1 = withoutPassword u \<and> D1 = D\<lparr>users := users D @ [u]\<rparr> \<and> name u = n"
proof -
  let ?c = "if n = adminName \<and> f
            then User_create i n ''1234aa'' (Some ''wj211@'') True (users D)
            else User_create i n (n @ showInt t) None False (users D)"
  have l: "login (Some n) f i t D =
      (case ?c of Inl err \<Rightarrow> ((500, Send (ErrMessage err)), D)
       | Inr (u, us) \<Rightarrow> ((200, UserJson (withoutPassword u)), D\<lparr>users := us\<rparr>))"
    using assms(1,2) by (simp add: login_def falsy_string_def)
  show ?thesis
  proof (cases ?c)
    case (Inl e)
    with l assms(3) show ?thesis by simp
  next
    case (Inr r)
    obtain u us where r: "r = (u, us)" by (cases r)
    from Inr r have "us = users D @ [u] \<and> name u = n"
      by (auto dest: User_create_Inr split: if_splits)
    moreover from l Inr r assms(3) have "u1 = withoutPassword u \<and> D1 = D\<lparr>users := us\<rparr>"
      by simp
    ultimately show ?thesis by blast
  qed
qed

text \<open>
  A login with a non-empty name either returns a user or fails on a duplicate key (the
  generated object id or userId is already taken), in which case nothing is stored.
\<close>

lemma login_valid_name:
  assumes "n \<noteq> []"
  shows "(\<exists>u D1. login (Some n) f i t D = ((200, UserJson u), D1)) \<or>
         login (Some n) f i t D = ((500, Send (ErrMessage DuplicateKey)), D)"
  using assms
  by (auto simp: login_def falsy_string_def User_create_def Let_def split: option.splits)

text \<open>
  Claim C7. For every non-empty name, when a login call has returned a user, a second
  login call with the same name (whatever its admin flag, clock reading and generated
  id) returns the same user document, so the same id and the same score, and leaves
  the database as the first call left it: no second user record is created.
\<close>

theorem login_idempotent:
  assumes valid: "n \<noteq> []"
    and first: "login (Some n) f i t D = ((200, UserJson u1), D1)"
  shows "login (Some n) f' i' t' D1 = ((200, UserJson u1), D1)"
proof (cases "find (\<lambda>u. name u = n) (users D)")
  case (Some u)
  from login_found[OF valid Some, of f i t] first
  have "u1 = withoutPassword u" and "D1 = D" by simp_all
  with login_found[OF valid Some, of f' i' t'] show ?thesis by simp
next
  case None
  from login_new[OF valid None first] obtain u
    where u: "u1 = withoutPassword u" "D1 = D\<lparr>users := users D @ [u]\<rparr>" "name u = n"
    by blast
  from find_append_new[OF None, of u] u(3)
  have "find (\<lambda>u. name u = n) (users D1) = Some u" by (simp add: u(2))
  from login_found[OF valid this, of f' i' t'] u(1) show ?thesis by simp
qed

lemma login_lee: "login (Some ''lee'') False 2 1735689600000 db1 = ((200, UserJson userL), db3)"
  by (simp add: login_def falsy_string_def db1_def db3_def userU_def userL_def adminName_def
      User_create_def showInt_def showNat.simps withoutPassword_def Let_def)

text \<open>The name lee registers, and logs in again a millisecond later.\<close>

theorem login_idempotent_witness:
  "login (Some ''lee'') False 2 1735689600000 db1 = ((200, UserJson userL), db3) \<and>
   login (Some ''lee'') True 3 1735689600001 db3 = ((200, UserJson userL), db3)"
proof -
  have v: "''lee'' \<noteq> []" by simp
  from login_idempotent[OF v login_lee, of True 3 1735689600001] login_lee
  show ?thesis by simp
qed

subsection \<open>The leaderboard\<close>

lemma key_le_ranks:
  "(- score a, latestQuizDate a) \<le> (- score b, latestQuizDate b) \<Longrightarrow>
   ranks_before (withoutPassword a) (withoutPassword b)"
  by (auto simp: ranks_before_def withoutPassword_def)

text \<open>
  Claim C8. The leaderboard request answers 200 with a list that holds exactly the users
  with isAdmin = false, each once and without its password field; no returned user has
  isAdmin = true; and every user of the list ranks before every later one: a higher
  score first, and among equal scores the earlier latestQuizDate first. The database is
  unchanged.
\<close>

theorem listUsers_leaderboard:
  "\<exists>us. listUsers D = ((200, UsersJson us), D)
      \<and> mset us = mset (map withoutPassword (filter (\<lambda>u. \<not> isAdmin u) (users D)))
      \<and> sorted_wrt ranks_before us
      \<and> list_all (\<lambda>u. password u = None \<and> \<not> isAdmin u) us"
proof -
  let ?k = "\<lambda>u. (- score u, latestQuizDate u)"
  let ?xs = "filter (\<lambda>u. isAdmin u = False) (users D)"
  let ?us = "map withoutPassword (sort_key ?k ?xs)"
  have 1: "listUsers D = ((200, UsersJson ?us), D)" by (simp add: listUsers_def)
  have 2: "mset ?us = mset (map withoutPassword (filter (\<lambda>u. \<not> isAdmin u) (users D)))"
    by simp
  have "sorted (map ?k (sort_key ?k ?xs))" by (rule sorted_sort_key)
  then have "sorted_wrt (\<lambda>a b. ?k a \<le> ?k b) (sort_key ?k ?xs)"
    by (simp add: sorted_map)
  then have "sorted_wrt (\<lambda>a b. ranks_before (withoutPassword a) (withoutPassword b)) (sort_key ?k ?xs)"
    by (rule sorted_wrt_mono_rel[rotated]) (rule key_le_ranks)
  then have 3: "sorted_wrt ranks_before ?us" by (simp add: sorted_wrt_map)
  have 4: "list_all (\<lambda>u. password u = None \<and> \<not> isAdmin u) ?us"
    by (simp add: list_all_iff withoutPassword_def)
  from 1 2 3 4 show ?thesis by blast
qed

lemma listUsers_db4: "listUsers db4 = ((200, UsersJson board4), db4)"
  by (simp add: listUsers_def db4_def board4_def userU_def userL_def userA_def withoutPassword_def)

text \<open>
  The board of \<open>db4\<close>: the administrator is left out, the two players tied at score 2
  come in the order of their dates 20 and 30, and the player with score 0 is last.
\<close>

theorem listUsers_leaderboard_witness:
  "listUsers db4 = ((200, UsersJson board4), db4)
   \<and> sorted_wrt ranks_before board4
   \<and> list_all (\<lambda>u. password u = None \<and> \<not> isAdmin u) board4"
proof -
  from listUsers_leaderboard[of db4] obtain us
    where us: "listUsers db4 = ((200, UsersJson us), db4)" "sorted_wrt ranks_before us"
      "list_all (\<lambda>u. password u = None \<and> \<not> isAdmin u) us"
    by blast
  from us(1) listUsers_db4 have "us = board4" by simp
  with us listUsers_db4 show ?thesis by simp
qed

subsection \<open>Judging the submitted answer\<close>

text \<open>
  A text in which no decimal digit follows the leading white space and sign has no
  number for \<open>parseInt\<close> to read.
\<close>

lemma isDigit_zero: "isDigit 10 (CHR ''0'')"
  by (simp add: isDigit_def digitVal_def)

lemma parseInt_no_digit:
  assumes "noLeadingDigit s"
  shows "parseInt s = NaN"
proof -
  obtain sg S1 where st: "stripSign (trimStart s) = (sg, S1)"
    by (cases "stripSign (trimStart s)")
  show ?thesis
  proof (cases S1)
    case Nil
    with st show ?thesis by (simp add: parseInt_def stripPrefix_def)
  next
    case (Cons c cs)
    with assms st have nd: "\<not> isDigit 10 c" by (simp add: noLeadingDigit_def)
    with isDigit_zero have c0: "c \<noteq> CHR ''0''" by auto
    then have p: "stripPrefix (c # cs) = (10, c # cs)" by (auto simp: stripPrefix_def)
    from st Cons p nd show ?thesis by (simp add: parseInt_def)
  qed
qed

lemma noLeadingDigit_examples:
  "noLeadingDigit ''undefined''" "noLeadingDigit ''null''" "noLeadingDigit ''true''"
  "noLeadingDigit ''false''" "noLeadingDigit []" "noLeadingDigit ''abc''"
  "noLeadingDigit '' -x1''"
  by (simp_all add: noLeadingDigit_def stripSign_def wsLen_def isDigit_def digitVal_def)

text \<open>
  Claim C9 as stated fails: the submission 7abc is not a number, and \<open>parseInt\<close> reads
  it as 7, since it stops at the first character that is not a digit. Against the quiz
  whose answer is 7 the submission is judged correct and the user scores.
\<close>

theorem solve_7abc_judged_correct:
  "parseInt ''7abc'' = Finite 7 \<and>
   solve ''2025-01-01'' (Some idU) ''7abc'' 10 11 db1 = ((200, SolveJson True True 1), db2)"
proof -
  have r: "roundInt 1 = 1" by (simp add: roundInt_def roundNat_def)
  have "solve ''2025-01-01'' (Some idU) ''7abc'' 10 11 db1 = ((200, SolveJson True True 1), db2)"
    using solve_judged[OF db1_quiz db1_user db1_fresh, of "''7abc''" 10 11]
    by (simp add: parseInt_7abc db1_fields r db1_def db2_def solved1_def quiz1_def)
  then show ?thesis by (simp add: parseInt_7abc)
qed

text \<open>
  Claim C9, amended. Solve judges a submission by comparing what \<open>parseInt\<close> reads from
  its text with the quiz's stored integer answer: isCorrect is true exactly when
  \<open>parseInt\<close> yields that integer. \<open>parseInt\<close> does not ask that the whole text be a
  number: it reads 7abc as 7. For every submission in whose text no decimal digit
  follows the leading white space and sign (a missing answer, null, a boolean, the
  empty string, abc) \<open>parseInt\<close> yields NaN, which equals no stored integer, and the
  submission is judged incorrect for every quiz.
\<close>

theorem solve_judges_by_parseInt:
  assumes quiz: "find (\<lambda>p. date p = d) (problems D) = Some p"
    and usr: "findById (users D) v = Inr (Some u)"
    and fresh: "u_id u \<notin> s_userId ` set (solvers p)"
  shows "fst (solve d v a t1 t2 D) =
           (200, SolveJson True (parseInt a = Finite (answer p))
                   (if parseInt a = Finite (answer p) then roundInt (score u + 1) else score u))
       \<and> (noLeadingDigit a \<longrightarrow>
            parseInt a = NaN \<and> fst (solve d v a t1 t2 D) = (200, SolveJson True False (score u)))
       \<and> parseInt ''7abc'' = Finite 7
       \<and> list_all noLeadingDigit [''undefined'', ''null'', ''true'', ''false'', [], ''abc'']"
proof -
  have e: "(Finite (answer p) = parseInt a) = (parseInt a = Finite (answer p))" by auto
  have 1: "fst (solve d v a t1 t2 D) =
           (200, SolveJson True (parseInt a = Finite (answer p))
                   (if parseInt a = Finite (answer p) then roundInt (score u + 1) else score u))"
    using solve_judged[OF quiz usr fresh, of a t1 t2] by (simp add: Let_def e)
  have 2: "noLeadingDigit a \<longrightarrow>
            parseInt a = NaN \<and> fst (solve d v a t1 t2 D) = (200, SolveJson True False (score u))"
    using 1 by (auto simp: parseInt_no_digit)
  have 3: "list_all noLeadingDigit [''undefined'', ''null'', ''true'', ''false'', [], ''abc'']"
    by (simp add: noLeadingDigit_examples)
  from 1 2 3 parseInt_7abc show ?thesis by blast
qed

text \<open>The submission abc is judged incorrect; the submission 7abc is judged as 7.\<close>

theorem solve_judges_by_parseInt_witness:
  "noLeadingDigit ''abc'' \<and> parseInt ''abc'' = NaN \<and>
   fst (solve ''2025-01-01'' (Some idU) ''abc'' 10 11 db1) = (200, SolveJson True False 0) \<and>
   fst (solve ''2025-01-01'' (Some idU) ''7abc'' 10 11 db1) = (200, SolveJson True True 1)"
proof -
  have n: "noLeadingDigit ''abc''" by (rule noLeadingDigit_examples)
  note T = solve_judges_by_parseInt[OF db1_quiz db1_user db1_fresh, of "''abc''" 10 11]
  from T n have w: "parseInt ''abc'' = NaN"
    "fst (solve ''2025-01-01'' (Some idU) ''abc'' 10 11 db1) = (200, SolveJson True False (score userU))"
    by blast+
  have r: "fst (solve ''2025-01-01'' (Some idU) ''7abc'' 10 11 db1) =
      (200, SolveJson True (parseInt ''7abc'' = Finite (answer quiz1))
         (if parseInt ''7abc'' = Finite (answer quiz1) then roundInt (score userU + 1) else score userU))"
    using solve_judges_by_parseInt[OF db1_quiz db1_user db1_fresh, of "''7abc''" 10 11] by blast
  have r1: "roundInt 1 = 1" by (simp add: roundInt_def roundNat_def)
  from n w r show ?thesis by (simp add: parseInt_7abc db1_fields r1)
qed

end
